theory Spec2Isabelle
  imports Main
begin

section \<open>Python values, exceptions and effects\<close>

text \<open>
  The values a configuration dictionary or an instance attribute can hold
  (\<^verbatim>\<open>Dict[str, Any]\<close>): \<^verbatim>\<open>None\<close>, booleans, integers, strings, nested
  dictionaries and references to other objects.
\<close>

datatype pyval =
    VNone
  | VBool bool
  | VInt int
  | VStr string
  | VDict "(string \<times> pyval) list"
  | VObj nat

text \<open>
  An exception is an instance of an exception class, identified by the name of the class,
  carrying the message it was built with. \<^verbatim>\<open>NotImplementedError\<close> is the only class
  the source raises.
\<close>

datatype exn = Exn (exn_class: string) (exn_message: string)

abbreviation NotImplementedError :: "string \<Rightarrow> exn" where
  "NotImplementedError \<equiv> Exn ''NotImplementedError''"

text \<open>
  A node instance as the Runtime can observe it: the attributes stored on \<^verbatim>\<open>self\<close>
  and the records the node has handed to its output channels so far, each with the name of
  its output port, oldest first.
\<close>

record node =
  attrs :: "string \<rightharpoonup> pyval"
  sent :: "(string \<times> pyval) list"

text \<open>
  A method body is a state transformer on the instance that either returns a value or
  raises. \<^verbatim>\<open>raise e\<close> leaves the instance as it is.
\<close>

type_synonym 'r action = "node \<Rightarrow> (exn + 'r) \<times> node"

definition raise :: "exn \<Rightarrow> 'r action" where
  "raise e self = (Inl e, self)"

text \<open>
  Calling an \<^verbatim>\<open>async def\<close> function runs none of its body: it returns a coroutine
  object that holds the body. The body runs when the coroutine is awaited. A body without
  any \<^verbatim>\<open>await\<close> expression has no suspension point, so the first resumption runs it
  to its end. \<open>await\<close> is that first resumption of a coroutine object; every call of the
  coroutine function makes a new object.
\<close>

datatype coroutine = Coroutine (coro_body: "unit action")

definition async_call :: "unit action \<Rightarrow> coroutine action" where
  "async_call body self = (Inr (Coroutine body), self)"

definition await :: "coroutine \<Rightarrow> unit action" where
  "await c self = coro_body c self"

text \<open>
  \<^verbatim>\<open>object.__new__\<close>: a fresh instance has no attribute and has sent nothing.
\<close>

definition object_new :: node where
  "object_new = \<lparr>attrs = Map.empty, sent = []\<rparr>"


section \<open>The class \<^verbatim>\<open>Source\<close>\<close>

text \<open>
  The types \<^verbatim>\<open>Context\<close> and \<^verbatim>\<open>DataSender\<close> are imported from outside this
  file; they are the type parameters \<open>'c\<close> and \<open>'d\<close>.
  \<^verbatim>\<open>
  def __init__(self, context: Context, configuration: Dict[str, Any],
               outputs: Dict[str, DataSender]):
      raise NotImplementedError(
          "Please implement your own method, Source is an interface")
  \<close>
\<close>

definition Source_init ::
  "'c \<Rightarrow> (string \<rightharpoonup> pyval) \<Rightarrow> (string \<rightharpoonup> 'd) \<Rightarrow> unit action" where
  "Source_init ctx configuration outputs =
     raise (NotImplementedError
       ''Please implement your own method, Source is an interface'')"

text \<open>
  \<^verbatim>\<open>
  async def run(self):
      raise NotImplementedError(
          "Please implement your own method, Source is an interface")
  \<close>
  \<open>Source_run_body\<close> is the body; \<open>Source_run\<close> is the call \<^verbatim>\<open>self.run()\<close>.
\<close>

definition Source_run_body :: "unit action" where
  "Source_run_body =
     raise (NotImplementedError
       ''Please implement your own method, Source is an interface'')"

definition Source_run :: "coroutine action" where
  "Source_run = async_call Source_run_body"

text \<open>
  \<^verbatim>\<open>
  def finalize(self) -> None:
      raise NotImplementedError(
          "Please implement your own method, Source is an interface")
  \<close>
\<close>

definition Source_finalize :: "unit action" where
  "Source_finalize =
     raise (NotImplementedError
       ''Please implement your own method, Source is an interface'')"

text \<open>
  \<^verbatim>\<open>Source(context, configuration, outputs)\<close>: the class call allocates the instance,
  runs \<^verbatim>\<open>__init__\<close> on it and returns the instance when \<^verbatim>\<open>__init__\<close> returns;
  an exception of \<^verbatim>\<open>__init__\<close> propagates and the instance is dropped.
\<close>

definition Source_call ::
  "'c \<Rightarrow> (string \<rightharpoonup> pyval) \<Rightarrow> (string \<rightharpoonup> 'd) \<Rightarrow> exn + node" where
  "Source_call ctx configuration outputs =
     (case Source_init ctx configuration outputs object_new of
        (Inl e, self) \<Rightarrow> Inl e
      | (Inr u, self) \<Rightarrow> Inr self)"

text \<open>
  \<^verbatim>\<open>await self.run()\<close>, as the Runtime drives the run operation: the call, then the
  coroutine it returned run to its end.
\<close>

definition await_run :: "unit action" where
  "await_run self =
     (case Source_run self of
        (Inl e, self') \<Rightarrow> (Inl e, self')
      | (Inr c, self') \<Rightarrow> await c self')"


section \<open>The class namespace and derived classes\<close>

text \<open>
  The three kinds of function the class body defines: the constructor with its three
  parameters after \<^verbatim>\<open>self\<close>, a coroutine function of \<^verbatim>\<open>self\<close> alone
  (\<^verbatim>\<open>async def\<close>) and a plain function of \<^verbatim>\<open>self\<close> alone.
\<close>

datatype ('c, 'd) pymethod =
    Constructor "'c \<Rightarrow> (string \<rightharpoonup> pyval) \<Rightarrow> (string \<rightharpoonup> 'd) \<Rightarrow> unit action"
  | Coroutine_function "unit action"
  | Plain_function "unit action"

text \<open>The namespace of \<^verbatim>\<open>class Source(object)\<close>, in the order of its body.\<close>

definition Source_dict :: "(string \<times> ('c, 'd) pymethod) list" where
  "Source_dict =
     [(''__init__'', Constructor Source_init),
      (''run'', Coroutine_function Source_run_body),
      (''finalize'', Plain_function Source_finalize)]"

text \<open>
  A concrete node is a class that derives from \<^verbatim>\<open>Source\<close> directly, with a namespace
  \<open>sub\<close> of its own. Looking a lifecycle operation up on one of its instances searches
  \<open>sub\<close> first and the namespace of \<^verbatim>\<open>Source\<close> second; the answer says which of the
  two classes provided the function. \<open>None\<close> says that neither of the two defines the
  name: the search of Python then goes on in \<^verbatim>\<open>object\<close>, the base of
  \<^verbatim>\<open>class Source(object)\<close>, whose namespace is not described here. The three names
  that \<^verbatim>\<open>Source\<close> defines are always found before \<^verbatim>\<open>object\<close> is reached.
\<close>

datatype owner = Derived | Base

definition resolve ::
  "(string \<times> ('c, 'd) pymethod) list \<Rightarrow> string \<Rightarrow> (owner \<times> ('c, 'd) pymethod) option" where
  "resolve sub name =
     (case map_of sub name of
        Some m \<Rightarrow> Some (Derived, m)
      | None \<Rightarrow>
          (case map_of Source_dict name of
             Some m \<Rightarrow> Some (Base, m)
           | None \<Rightarrow> None))"


section \<open>Lifecycle calls on a node\<close>







section \<open>Basic facts\<close>

lemma Source_init_raises:
  "Source_init ctx configuration outputs self =
     (Inl (NotImplementedError
        ''Please implement your own method, Source is an interface''), self)"
  by (simp add: Source_init_def raise_def)

lemma Source_finalize_raises:
  "Source_finalize self =
     (Inl (NotImplementedError
        ''Please implement your own method, Source is an interface''), self)"
  by (simp add: Source_finalize_def raise_def)

lemma Source_run_returns:
  "Source_run self = (Inr (Coroutine Source_run_body), self)"
  by (simp add: Source_run_def async_call_def)

lemma await_Source_run_body:
  "await (Coroutine Source_run_body) self =
     (Inl (NotImplementedError
        ''Please implement your own method, Source is an interface''), self)"
  by (simp add: await_def Source_run_body_def raise_def)

lemma await_run_raises:
  "await_run self =
     (Inl (NotImplementedError
        ''Please implement your own method, Source is an interface''), self)"
  by (simp add: await_run_def Source_run_returns await_Source_run_body)

lemma Source_call_raises:
  "Source_call ctx configuration outputs =
     Inl (NotImplementedError
       ''Please implement your own method, Source is an interface'')"
  by (simp add: Source_call_def Source_init_raises)

lemma map_of_Source_dict:
  "map_of Source_dict name =
     (if name = ''__init__'' then Some (Constructor Source_init)
      else if name = ''run'' then Some (Coroutine_function Source_run_body)
      else if name = ''finalize'' then Some (Plain_function Source_finalize)
      else None)"
  by (simp add: Source_dict_def)

lemma resolve_inherited:
  "map_of sub name = None \<Longrightarrow>
     resolve sub name = map_option (Pair Base) (map_of Source_dict name)"
  by (simp add: resolve_def split: option.splits)











section \<open>Unimplemented operations\<close>

text \<open>
  C1, as stated, fails for \<^verbatim>\<open>run\<close>: the call \<^verbatim>\<open>self.run()\<close> on a fresh instance
  does not fail. It returns a coroutine object.
\<close>

theorem Source_run_call_does_not_fail:
  "fst (Source_run object_new) = Inr (Coroutine Source_run_body) \<and>
   \<not> isl (fst (Source_run object_new))"
  by (simp add: Source_run_returns)

text \<open>
  C1, amended: a class derived from \<^verbatim>\<open>Source\<close> that does not define a lifecycle
  operation inherits the one of \<^verbatim>\<open>Source\<close>. For all arguments and every instance,
  the inherited \<^verbatim>\<open>__init__\<close> and \<^verbatim>\<open>finalize\<close> fail at the call with
  \<^verbatim>\<open>NotImplementedError\<close> and the fixed message; the inherited \<^verbatim>\<open>run\<close> returns a
  coroutine at the call, and awaiting that coroutine fails with the same
  \<^verbatim>\<open>NotImplementedError\<close>. The instance is unchanged in every case.
\<close>

theorem Source_unimplemented:
  "(map_of sub ''__init__'' = None \<longrightarrow>
      resolve sub ''__init__'' = Some (Base, Constructor Source_init)) \<and>
   Source_init ctx configuration outputs self =
     (Inl (NotImplementedError
        ''Please implement your own method, Source is an interface''), self) \<and>
   (map_of sub ''finalize'' = None \<longrightarrow>
      resolve sub ''finalize'' = Some (Base, Plain_function Source_finalize)) \<and>
   Source_finalize self =
     (Inl (NotImplementedError
        ''Please implement your own method, Source is an interface''), self) \<and>
   (map_of sub ''run'' = None \<longrightarrow>
      resolve sub ''run'' = Some (Base, Coroutine_function Source_run_body)) \<and>
   Source_run self = (Inr (Coroutine Source_run_body), self) \<and>
   await (Coroutine Source_run_body) self =
     (Inl (NotImplementedError
        ''Please implement your own method, Source is an interface''), self)"
  by (simp add: resolve_inherited map_of_Source_dict Source_init_raises
      Source_finalize_raises Source_run_returns await_Source_run_body)

text \<open>
  C1, amended, at the derived class with an empty body and a fresh instance: all three
  operations are the inherited ones.
\<close>

theorem Source_unimplemented_witness:
  "resolve ([] :: (string \<times> (nat, nat) pymethod) list) ''__init__'' =
     Some (Base, Constructor Source_init) \<and>
   Source_init (0 :: nat) (map_of [(''count'', VInt 3)]) (map_of [(''out'', 0 :: nat)])
       object_new =
     (Inl (NotImplementedError
        ''Please implement your own method, Source is an interface''), object_new) \<and>
   resolve ([] :: (string \<times> (nat, nat) pymethod) list) ''finalize'' =
     Some (Base, Plain_function Source_finalize) \<and>
   Source_finalize object_new =
     (Inl (NotImplementedError
        ''Please implement your own method, Source is an interface''), object_new) \<and>
   resolve ([] :: (string \<times> (nat, nat) pymethod) list) ''run'' =
     Some (Base, Coroutine_function Source_run_body) \<and>
   Source_run object_new = (Inr (Coroutine Source_run_body), object_new) \<and>
   await (Coroutine Source_run_body) object_new =
     (Inl (NotImplementedError
        ''Please implement your own method, Source is an interface''), object_new)"
  using Source_unimplemented
    [of "[] :: (string \<times> (nat, nat) pymethod) list" "0 :: nat"
      "map_of [(''count'', VInt 3)]" "map_of [(''out'', 0 :: nat)]" object_new]
  by simp


section \<open>Construction\<close>

text \<open>
  C3, as stated, fails: with the configuration \<^verbatim>\<open>{"count": 3}\<close> and the output port
  \<^verbatim>\<open>"out"\<close>, the construction neither returns an instance nor fails with a
  \<^verbatim>\<open>ConfigurationError\<close> or a \<^verbatim>\<open>ResourceError\<close>.
\<close>

theorem Source_call_not_configuration_error:
  "\<not> (case Source_call (0 :: nat) (map_of [(''count'', VInt 3)])
           (map_of [(''out'', 0 :: nat)]) of
        Inr self \<Rightarrow> True
      | Inl e \<Rightarrow> exn_class e = ''ConfigurationError'' \<or> exn_class e = ''ResourceError'')"
  by (simp add: Source_call_raises)

text \<open>
  C3, amended: for every context, configuration and set of output channels, the
  construction of a \<^verbatim>\<open>Source\<close> returns no instance: it fails, and the error is a
  \<^verbatim>\<open>NotImplementedError\<close> with the fixed message, so never a
  \<^verbatim>\<open>ConfigurationError\<close> or a \<^verbatim>\<open>ResourceError\<close>.
\<close>

theorem Source_call_unimplemented:
  "isl (Source_call ctx configuration outputs) \<and>
   exn_class (projl (Source_call ctx configuration outputs)) = ''NotImplementedError'' \<and>
   exn_message (projl (Source_call ctx configuration outputs)) =
     ''Please implement your own method, Source is an interface'' \<and>
   exn_class (projl (Source_call ctx configuration outputs)) \<noteq> ''ConfigurationError'' \<and>
   exn_class (projl (Source_call ctx configuration outputs)) \<noteq> ''ResourceError''"
  by (simp add: Source_call_raises)

text \<open>
  C5: the construction call is a function of exactly a context, a configuration mapping
  from strings to values and a mapping from output-port names to channel handles, and it
  produces a node instance or an error. (On \<^verbatim>\<open>Source\<close> itself it is always the error.)
\<close>

theorem Source_call_shape:
  "((\<exists>self. Source_call (ctx :: 'c) (configuration :: string \<rightharpoonup> pyval)
        (outputs :: string \<rightharpoonup> 'd) = Inr (self :: node)) \<or>
    (\<exists>e. Source_call ctx configuration outputs = Inl (e :: exn))) \<and>
   Source_call ctx configuration outputs =
     Inl (NotImplementedError
       ''Please implement your own method, Source is an interface'')"
  by (simp add: Source_call_raises)

text \<open>
  C9: a failed construction is atomic. For every context, configuration and set of
  output channels and every instance, \<^verbatim>\<open>__init__\<close> fails and leaves the instance as it
  was; the instance allocated for the construction still has no attribute and has sent
  nothing.
\<close>

theorem Source_init_atomic:
  "isl (fst (Source_init ctx configuration outputs self)) \<and>
   snd (Source_init ctx configuration outputs self) = self \<and>
   attrs (snd (Source_init ctx configuration outputs object_new)) = Map.empty \<and>
   sent (snd (Source_init ctx configuration outputs object_new)) = []"
  by (simp add: Source_init_raises object_new_def)


section \<open>Run\<close>

text \<open>
  C6: the run call takes the instance and nothing else. Driven to its end it results in
  completion or in an error, its result carries no data (it is the unit value), and on
  \<^verbatim>\<open>Source\<close> no record is handed to an output channel.
\<close>

theorem await_run_shape:
  "(fst (await_run (self :: node)) = Inr () \<or> (\<exists>e. fst (await_run self) = Inl e)) \<and>
   sent (snd (await_run self)) = sent self"
  by (simp add: await_run_raises)

text \<open>
  C8: on every instance the call \<^verbatim>\<open>self.run()\<close> does not fail: it returns a coroutine
  object and leaves the instance as it was. The \<^verbatim>\<open>NotImplementedError\<close> is raised when
  that coroutine is awaited.
\<close>

theorem Source_run_deferred:
  "\<not> isl (fst (Source_run self)) \<and>
   snd (Source_run self) = self \<and>
   await (projr (fst (Source_run self))) self' =
     (Inl (NotImplementedError
        ''Please implement your own method, Source is an interface''), self')"
  by (simp add: Source_run_returns await_Source_run_body)


section \<open>The lifecycle\<close>




text \<open>
  C10: every lifecycle operation of \<^verbatim>\<open>Source\<close> is deterministic and independent of
  its input. Any two invocations of the same operation, on any instances and with any
  contexts, configurations and outputs, have the same outcome: the
  \<^verbatim>\<open>NotImplementedError\<close> with the fixed message (for \<^verbatim>\<open>run\<close>, the same coroutine,
  which raises it when awaited).
\<close>

theorem Source_input_independent:
  "fst (Source_init ctx configuration outputs self) =
     fst (Source_init ctx' configuration' outputs' self') \<and>
   fst (Source_init ctx configuration outputs self) =
     Inl (NotImplementedError
       ''Please implement your own method, Source is an interface'') \<and>
   fst (Source_run self) = fst (Source_run self') \<and>
   fst (await_run self) = fst (await_run self') \<and>
   fst (await_run self) =
     Inl (NotImplementedError
       ''Please implement your own method, Source is an interface'') \<and>
   fst (Source_finalize self) = fst (Source_finalize self') \<and>
   fst (Source_finalize self) =
     Inl (NotImplementedError
       ''Please implement your own method, Source is an interface'')"
  by (simp add: Source_init_raises Source_run_returns await_run_raises
      Source_finalize_raises)


section \<open>The interface\<close>



end
